theory Spec2Isabelle
  imports Complex_Main "HOL-Library.Option_ord" "HOL-Library.Product_Lexorder"
    "HOL-Library.Multiset" "HOL-Library.AList"
begin

section \<open>Synthetic climate data: \<^verbatim>\<open>map_fires_vs_precip.py\<close>\<close>

text \<open>
  The script draws every random number from NumPy's global generator. The generator is
  a library of its own, so it is a parameter of the model: a record of the four calls the
  script makes, each taking the generator's state and returning the new one with the
  draw. Floats are modelled as reals.
\<close>

datatype py_error = KeyError | ValueError | TypeError

record 'g rng =
  random_seed :: "nat \<Rightarrow> 'g \<Rightarrow> 'g"
  random_normal :: "real \<Rightarrow> real \<Rightarrow> 'g \<Rightarrow> real \<times> 'g"
  random_uniform :: "real \<Rightarrow> real \<Rightarrow> 'g \<Rightarrow> real \<times> 'g"
  random_rand :: "'g \<Rightarrow> real \<times> 'g"

definition states :: "string list" where
  "states =
    [''AL'', ''AK'', ''AZ'', ''AR'', ''CA'', ''CO'', ''CT'', ''DE'', ''FL'', ''GA'', ''HI'',
     ''ID'', ''IL'', ''IN'', ''IA'', ''KS'', ''KY'', ''LA'', ''ME'', ''MD'', ''MA'', ''MI'',
     ''MN'', ''MS'', ''MO'', ''MT'', ''NE'', ''NV'', ''NH'', ''NJ'', ''NM'', ''NY'', ''NC'',
     ''ND'', ''OH'', ''OK'', ''OR'', ''PA'', ''RI'', ''SC'', ''SD'', ''TN'', ''TX'', ''UT'',
     ''VT'', ''VA'', ''WA'', ''WV'', ''WI'', ''WY'', ''DC'']"

definition years :: "int list" where
  "years = [2000..2025]"

definition west :: "string set" where
  "west = {''CA'', ''OR'', ''WA'', ''NV'', ''AZ'', ''NM'', ''CO'', ''UT'', ''ID'', ''MT'', ''WY''}"

definition southeast :: "string set" where
  "southeast = {''FL'', ''GA'', ''AL'', ''MS'', ''LA'', ''SC'', ''NC'', ''TN'', ''KY''}"

definition northeast :: "string set" where
  "northeast =
    {''ME'', ''NH'', ''VT'', ''MA'', ''RI'', ''CT'', ''NY'', ''NJ'', ''PA'', ''MD'', ''DE''}"

definition midwest :: "string set" where
  "midwest =
    {''OH'', ''MI'', ''IN'', ''IL'', ''WI'', ''MN'', ''IA'', ''MO'', ''ND'', ''SD'', ''NE'',
     ''KS''}"

definition islands :: "string set" where
  "islands = {''HI'', ''AK''}"

text \<open>Lines 34 to 51: the two baseline draws of one state, the normal one first.\<close>

definition region_params :: "string \<Rightarrow> (real \<times> real) \<times> (real \<times> real)" where
  "region_params st =
    (if st \<in> west then ((600, 120), (30, 80))
     else if st \<in> southeast then ((1300, 200), (5, 25))
     else if st \<in> northeast then ((1100, 200), (2, 15))
     else if st \<in> midwest then ((900, 180), (3, 20))
     else if st \<in> islands then ((1500, 300), (1, 10))
     else ((800, 200), (2, 30)))"

definition draw_base :: "'g rng \<Rightarrow> string \<Rightarrow> 'g \<Rightarrow> (real \<times> real) \<times> 'g" where
  "draw_base R st g =
    (case region_params st of ((mu, sigma), (lo, hi)) \<Rightarrow>
      (case random_normal R mu sigma g of (p, g1) \<Rightarrow>
        (case random_uniform R lo hi g1 of (w, g2) \<Rightarrow> ((p, w), g2))))"

text \<open>Lines 31 to 51: the loop filling the dictionaries \<^verbatim>\<open>base_precip\<close> and \<^verbatim>\<open>base_wild\<close>.\<close>

fun base_loop ::
  "'g rng \<Rightarrow> string list \<Rightarrow> (string \<rightharpoonup> real) \<Rightarrow> (string \<rightharpoonup> real) \<Rightarrow> 'g
    \<Rightarrow> (string \<rightharpoonup> real) \<times> (string \<rightharpoonup> real) \<times> 'g" where
  "base_loop R [] base_precip base_wild g = (base_precip, base_wild, g)"
| "base_loop R (st # sts) base_precip base_wild g =
    (case draw_base R st g of ((p, w), g') \<Rightarrow>
      base_loop R sts (base_precip(st \<mapsto> p)) (base_wild(st \<mapsto> w)) g')"

record row =
  state :: string
  year :: int
  precip_mm :: real
  wildfire_index :: real

text \<open>
  Lines 60 to 65 for one state and year. Python evaluates left to right: the lookup in
  \<^verbatim>\<open>base_precip\<close>, two normal draws, the lookup in \<^verbatim>\<open>base_wild\<close>, a third normal draw;
  \<^verbatim>\<open>np.random.rand()\<close> is drawn only for a western state (\<^verbatim>\<open>and\<close> short-circuits) and
  the spike factor only when the test succeeds. A missing key raises \<^verbatim>\<open>KeyError\<close>.
\<close>

definition spike :: "'g rng \<Rightarrow> string \<Rightarrow> real \<Rightarrow> real \<Rightarrow> 'g \<Rightarrow> real \<times> 'g" where
  "spike R st year_frac wild g =
    (if st \<in> west then
       (case random_rand R g of (u, g1) \<Rightarrow>
         if u < 0.08 + 0.12 * year_frac then
           (case random_uniform R 1.5 4.0 g1 of (m, g2) \<Rightarrow> (wild * m, g2))
         else (wild, g1))
     else (wild, g))"

definition make_row ::
  "'g rng \<Rightarrow> (string \<rightharpoonup> real) \<Rightarrow> (string \<rightharpoonup> real) \<Rightarrow> int \<Rightarrow> string \<Rightarrow> 'g
    \<Rightarrow> py_error + (row \<times> 'g)" where
  "make_row R base_precip base_wild yr st g =
    (let year_frac = real_of_int (yr - 2000) / 25.0 in
     case base_precip st of None \<Rightarrow> Inl KeyError | Some bp \<Rightarrow>
      (case random_normal R 0 0.08 g of (n1, g1) \<Rightarrow>
       case random_normal R 0 0.03 g1 of (n2, g2) \<Rightarrow>
        (let precip = bp * (1 + n1) * (1 + n2 * year_frac) in
         case base_wild st of None \<Rightarrow> Inl KeyError | Some bw \<Rightarrow>
          (case random_normal R 0 0.25 g2 of (n3, g3) \<Rightarrow>
           case spike R st year_frac (bw * (1 + 0.9 * year_frac) * (1 + n3)) g3 of
             (wild, g4) \<Rightarrow>
               Inr (\<lparr>state = st, year = yr, precip_mm = max 0 precip,
                      wildfire_index = max 0 wild\<rparr>, g4)))))"

text \<open>Lines 58 to 71: the inner loop over the states, appending to \<^verbatim>\<open>rows\<close>.\<close>

fun state_loop ::
  "'g rng \<Rightarrow> (string \<rightharpoonup> real) \<Rightarrow> (string \<rightharpoonup> real) \<Rightarrow> int \<Rightarrow> string list \<Rightarrow> row list
    \<Rightarrow> 'g \<Rightarrow> py_error + (row list \<times> 'g)" where
  "state_loop R base_precip base_wild yr [] rows g = Inr (rows, g)"
| "state_loop R base_precip base_wild yr (st # sts) rows g =
    (case make_row R base_precip base_wild yr st g of
       Inl e \<Rightarrow> Inl e
     | Inr (r, g') \<Rightarrow> state_loop R base_precip base_wild yr sts (rows @ [r]) g')"

text \<open>Lines 55 to 71: the outer loop over the years.\<close>

fun year_loop ::
  "'g rng \<Rightarrow> (string \<rightharpoonup> real) \<Rightarrow> (string \<rightharpoonup> real) \<Rightarrow> int list \<Rightarrow> row list \<Rightarrow> 'g
    \<Rightarrow> py_error + (row list \<times> 'g)" where
  "year_loop R base_precip base_wild [] rows g = Inr (rows, g)"
| "year_loop R base_precip base_wild (yr # yrs) rows g =
    (case state_loop R base_precip base_wild yr states rows g of
       Inl e \<Rightarrow> Inl e
     | Inr (rows', g') \<Rightarrow> year_loop R base_precip base_wild yrs rows' g')"

text \<open>
  Lines 13 to 73. \<^term>\<open>g0\<close> is whatever state the global generator has when the script
  starts (NumPy seeds it from the operating system); line 13 replaces it.
\<close>

definition generate :: "'g rng \<Rightarrow> 'g \<Rightarrow> py_error + row list" where
  "generate R g0 =
    (case base_loop R states Map.empty Map.empty (random_seed R 42 g0) of
      (base_precip, base_wild, g1) \<Rightarrow>
        (case year_loop R base_precip base_wild years [] g1 of
           Inl e \<Rightarrow> Inl e
         | Inr (rows, g2) \<Rightarrow> Inr rows))"


text \<open>
  Lines 76 and 77. A float quotient is a number, an infinity or NaN: pandas divides
  elementwise and \<^verbatim>\<open>0/0\<close> is NaN, where \<^term>\<open>(0::real) / 0\<close> would be \<^term>\<open>0::real\<close>.
\<close>

datatype fquot = Num real | PosInf | NegInf | NaN




record climate_df =
  records :: "row list"
  precip_intensity :: "fquot list"
  wildfire_intensity :: "fquot list"




definition step_rng :: "nat rng" where
  "step_rng =
    \<lparr>random_seed = (\<lambda>n g. n),
     random_normal = (\<lambda>mu sigma g. (mu + sigma * real (g mod 3) - sigma, Suc g)),
     random_uniform = (\<lambda>lo hi g. (lo + (hi - lo) * real (g mod 4) / 4, Suc g)),
     random_rand = (\<lambda>g. (real (g mod 10) / 10, Suc g))\<rparr>"



section \<open>California wildfires: \<^verbatim>\<open>ca_fires_2000-2015.py\<close>\<close>

subsection \<open>Tables\<close>

text \<open>
  A row of the \<^verbatim>\<open>Fires\<close> table with the nine columns the script reads. Every column
  may be NULL in SQLite and NaN or None in pandas: \<^term>\<open>None\<close>. A row of the database has
  more columns: they are the extension of the record.
\<close>

record fire =
  FIRE_NAME :: "string option"
  STATE :: "string option"
  FIRE_YEAR :: "int option"
  LATITUDE :: "real option"
  LONGITUDE :: "real option"
  FIRE_SIZE :: "real option"
  FIRE_SIZE_CLASS :: "string option"
  STAT_CAUSE_CODE :: "real option"
  STAT_CAUSE_DESCR :: "string option"

text \<open>
  A pandas column knows the type of its cells beside the cells. Only that of
  \<^verbatim>\<open>FIRE_SIZE\<close> is ever asked for (by \<^verbatim>\<open>nlargest\<close>): a column read from SQL without a
  single number in it, and so every column of a result without rows, has dtype
  \<^verbatim>\<open>object\<close>.
\<close>

datatype dtype = Float64 | Object

type_synonym column = "real option list"

record dataframe =
  fires :: "fire list"
  added :: "(string \<times> column) list"
  size_dtype :: dtype

fun dropna :: "'a option list \<Rightarrow> 'a list" where
  "dropna [] = []"
| "dropna (None # xs) = dropna xs"
| "dropna (Some x # xs) = x # dropna xs"

definition series_min :: "('a::linorder) option list \<Rightarrow> 'a option" where
  "series_min xs = (case dropna xs of [] \<Rightarrow> None | v # vs \<Rightarrow> Some (fold min vs v))"

definition series_max :: "('a::linorder) option list \<Rightarrow> 'a option" where
  "series_max xs = (case dropna xs of [] \<Rightarrow> None | v # vs \<Rightarrow> Some (fold max vs v))"

definition series_sum :: "real option list \<Rightarrow> real" where
  "series_sum xs = sum_list (dropna xs)"

definition series_mean :: "real option list \<Rightarrow> real option" where
  "series_mean xs =
    (if dropna xs = [] then None else Some (sum_list (dropna xs) / real (length (dropna xs))))"

subsection \<open>The loader\<close>

definition columns :: "string list" where
  "columns =
    [''FIRE_NAME'', ''STATE'', ''FIRE_YEAR'', ''LATITUDE'', ''LONGITUDE'', ''FIRE_SIZE'',
     ''FIRE_SIZE_CLASS'', ''STAT_CAUSE_CODE'', ''STAT_CAUSE_DESCR'']"

text \<open>
  The query of lines 26 to 33. \<^verbatim>\<open>WHERE\<close>: a comparison with NULL selects nothing.
  \<^verbatim>\<open>ORDER BY FIRE_YEAR, FIRE_SIZE DESC\<close>: SQLite puts NULL below every number, which is
  the order of \<^typ>\<open>real option\<close>. SQLite leaves the order of rows with equal keys open;
  the model keeps them in the order of the table.
\<close>

definition selected :: "'a fire_scheme \<Rightarrow> bool" where
  "selected r \<longleftrightarrow>
    STATE r = Some ''CA'' \<and>
    (case FIRE_YEAR r of None \<Rightarrow> False | Some y \<Rightarrow> 2000 \<le> y \<and> y \<le> 2015)"

definition year_size_order :: "fire \<Rightarrow> fire \<Rightarrow> bool" where
  "year_size_order a b \<longleftrightarrow>
    FIRE_YEAR a < FIRE_YEAR b \<or> (FIRE_YEAR a = FIRE_YEAR b \<and> FIRE_SIZE b \<le> FIRE_SIZE a)"

fun insert_by :: "('a \<Rightarrow> 'a \<Rightarrow> bool) \<Rightarrow> 'a \<Rightarrow> 'a list \<Rightarrow> 'a list" where
  "insert_by le x [] = [x]"
| "insert_by le x (y # ys) = (if le x y then x # y # ys else y # insert_by le x ys)"

fun order_by :: "('a \<Rightarrow> 'a \<Rightarrow> bool) \<Rightarrow> 'a list \<Rightarrow> 'a list" where
  "order_by le [] = []"
| "order_by le (x # xs) = insert_by le x (order_by le xs)"

definition query :: "'a fire_scheme list \<Rightarrow> fire list" where
  "query tbl = order_by year_size_order (map fire.truncate (filter selected tbl))"

text \<open>\<^verbatim>\<open>pd.read_sql_query\<close>: the rows of the result as a frame.\<close>

definition sql_frame :: "fire list \<Rightarrow> dataframe" where
  "sql_frame rs =
    \<lparr>fires = rs, added = [],
     size_dtype = (if dropna (map FIRE_SIZE rs) = [] then Object else Float64)\<rparr>"

text \<open>
  What is outside the script: \<^verbatim>\<open>sqlite3.connect\<close> raises with a message or opens a
  connection, and behind a connection the query raises with a message or finds the
  \<^verbatim>\<open>Fires\<close> table.
\<close>

datatype 'r database = Query_fails string | Fires "'r list"

type_synonym 'r sqlite = "string \<Rightarrow> string + 'r database"

text \<open>What the loader does to the outside, in order: its calls and its prints.\<close>

datatype event =
  Print_loading
| Call_connect string
| Call_read_sql_query
| Call_close
| Print_loaded nat
| Print_years "int option" "int option"
| Print_columns "string list"
| Print_error string

text \<open>
  Lines 35 to 51. \<^verbatim>\<open>except Exception\<close> takes the exception of either call; the only
  \<^verbatim>\<open>conn.close()\<close> is the statement after the query.
\<close>

definition load_california_wildfires ::
  "'a fire_scheme sqlite \<Rightarrow> string \<Rightarrow> event list \<times> dataframe option" where
  "load_california_wildfires sqlite3 db_path =
    (case sqlite3 db_path of
       Inl e \<Rightarrow> ([Print_loading, Call_connect db_path, Print_error e], None)
     | Inr (Query_fails e) \<Rightarrow>
         ([Print_loading, Call_connect db_path, Call_read_sql_query, Print_error e], None)
     | Inr (Fires tbl) \<Rightarrow>
         (let df = sql_frame (query tbl) in
          ([Print_loading, Call_connect db_path, Call_read_sql_query, Call_close,
            Print_loaded (length (fires df)),
            Print_years (series_min (map FIRE_YEAR (fires df)))
              (series_max (map FIRE_YEAR (fires df))),
            Print_columns columns],
           Some df)))"

text \<open>
  The connections still open after a run: opened by a \<^verbatim>\<open>connect\<close> that returned, and not
  closed since.
\<close>

fun open_connections :: "'r sqlite \<Rightarrow> event list \<Rightarrow> nat \<Rightarrow> nat" where
  "open_connections sqlite3 [] n = n"
| "open_connections sqlite3 (Call_connect p # es) n =
    open_connections sqlite3 es (case sqlite3 p of Inl e \<Rightarrow> n | Inr d \<Rightarrow> Suc n)"
| "open_connections sqlite3 (Call_close # es) n = open_connections sqlite3 es (n - 1)"
| "open_connections sqlite3 (e # es) n = open_connections sqlite3 es n"

subsection \<open>The exploratory summary\<close>

text \<open>
  \<^verbatim>\<open>value_counts\<close>: the values that are there with how often, the most frequent first,
  equally frequent ones in the order of their first row.
\<close>

definition value_counts :: "'a option list \<Rightarrow> ('a \<times> nat) list" where
  "value_counts xs =
    order_by (\<lambda>a b. snd b \<le> snd a)
      (map (\<lambda>v. (v, count_list (dropna xs) v)) (remdups (dropna xs)))"

text \<open>
  \<^verbatim>\<open>df.nlargest(n, 'FIRE_SIZE')\<close> first checks the dtype of the column and raises
  \<^verbatim>\<open>TypeError\<close> for \<^verbatim>\<open>object\<close>; then the rows by falling size, NaN last, rows of equal
  size in their order, and of these the first \<^term>\<open>n\<close>.
\<close>

definition nlargest :: "nat \<Rightarrow> dataframe \<Rightarrow> py_error + fire list" where
  "nlargest n df =
    (if size_dtype df = Object then Inl TypeError
     else Inr (take n (order_by (\<lambda>a b. FIRE_SIZE b \<le> FIRE_SIZE a) (fires df))))"

definition nulls :: "'a option list \<Rightarrow> nat" where
  "nulls xs = length (filter (\<lambda>x. x = None) xs)"

definition isnull_sum :: "dataframe \<Rightarrow> (string \<times> nat) list" where
  "isnull_sum df =
    [(''FIRE_NAME'', nulls (map FIRE_NAME (fires df))),
     (''STATE'', nulls (map STATE (fires df))),
     (''FIRE_YEAR'', nulls (map FIRE_YEAR (fires df))),
     (''LATITUDE'', nulls (map LATITUDE (fires df))),
     (''LONGITUDE'', nulls (map LONGITUDE (fires df))),
     (''FIRE_SIZE'', nulls (map FIRE_SIZE (fires df))),
     (''FIRE_SIZE_CLASS'', nulls (map FIRE_SIZE_CLASS (fires df))),
     (''STAT_CAUSE_CODE'', nulls (map STAT_CAUSE_CODE (fires df))),
     (''STAT_CAUSE_DESCR'', nulls (map STAT_CAUSE_DESCR (fires df)))]
    @ map (\<lambda>(name, col). (name, nulls col)) (added df)"

text \<open>The lines the summary prints, each with the values it formats.\<close>

datatype line =
  Banner
| Total_fires nat
| Years_covered "int option" "int option"
| Total_acres real
| Average_size "real option"
| Heading string
| Year_count int nat
| Class_count string nat
| Cause_count string nat
| Largest "int option" string "real option"
| Missing string nat real
| First_records "fire list" "(string \<times> column) list"

text \<open>
  Lines 53 to 99. The result is what was printed, and whether the function returned or
  raised. The percentage of line 95 divides by the number of rows only under the test
  of line 94, so never by zero.
\<close>

definition explore_ca_data :: "dataframe option \<Rightarrow> line list \<times> (py_error + unit)" where
  "explore_ca_data df_opt =
    (case df_opt of
       None \<Rightarrow> ([], Inr ())
     | Some df \<Rightarrow>
        (let printed =
           [Banner,
            Total_fires (length (fires df)),
            Years_covered (series_min (map FIRE_YEAR (fires df)))
              (series_max (map FIRE_YEAR (fires df))),
            Total_acres (series_sum (map FIRE_SIZE (fires df))),
            Average_size (series_mean (map FIRE_SIZE (fires df))),
            Heading ''Fires by Year:'']
           @ map (\<lambda>(y, c). Year_count y c)
               (sort_key fst (value_counts (map FIRE_YEAR (fires df))))
           @ [Heading ''Fire Size Classes:'']
           @ map (\<lambda>(c, n). Class_count c n) (value_counts (map FIRE_SIZE_CLASS (fires df)))
           @ [Heading ''Top 10 Fire Causes:'']
           @ map (\<lambda>(c, n). Cause_count c n)
               (take 10 (value_counts (map STAT_CAUSE_DESCR (fires df))))
           @ [Heading ''Largest Fires (Top 5):'']
         in case nlargest 5 df of
              Inl e \<Rightarrow> (printed, Inl e)
            | Inr largest_fires \<Rightarrow>
               (printed
                @ map (\<lambda>f. Largest (FIRE_YEAR f)
                         (case FIRE_NAME f of None \<Rightarrow> ''Unknown'' | Some name \<Rightarrow> name)
                         (FIRE_SIZE f))
                    largest_fires
                @ [Heading ''Missing Data:'']
                @ map (\<lambda>(col, missing_count).
                         Missing col missing_count
                           (real missing_count / real (length (fires df)) * 100))
                    (filter (\<lambda>(col, missing_count). 0 < missing_count) (isnull_sum df))
                @ [Heading ''First 3 records:'',
                   First_records (take 3 (fires df))
                     (map (\<lambda>(name, col). (name, take 3 col)) (added df))],
                Inr ())))"

subsection \<open>Frames as objects\<close>

text \<open>
  The map builders get a reference to the caller's frame, copy it and assign columns to
  the copy. To say what that leaves of the caller's frame, frames live in a store and a
  reference is an index into it. \<^verbatim>\<open>df.copy()\<close> and indexing with a row mask make a new
  frame; assigning a column changes the frame it is applied to, replacing a column of
  that name or adding one at the end.
\<close>

type_synonym heap = "dataframe list"

definition df_copy :: "heap \<Rightarrow> nat \<Rightarrow> nat \<times> heap" where
  "df_copy h a = (length h, h @ [h ! a])"

definition mask_select :: "bool list \<Rightarrow> 'a list \<Rightarrow> 'a list" where
  "mask_select m xs = map snd (filter fst (zip m xs))"

definition df_year_eq :: "heap \<Rightarrow> nat \<Rightarrow> int \<Rightarrow> nat \<times> heap" where
  "df_year_eq h p y =
    (let m = map (\<lambda>r. FIRE_YEAR r = Some y) (fires (h ! p)) in
     (length h,
      h @ [\<lparr>fires = mask_select m (fires (h ! p)),
             added = map (\<lambda>(name, col). (name, mask_select m col)) (added (h ! p)),
             size_dtype = size_dtype (h ! p)\<rparr>]))"

definition df_setitem :: "heap \<Rightarrow> nat \<Rightarrow> string \<Rightarrow> column \<Rightarrow> heap" where
  "df_setitem h p name col = h[p := (h ! p)\<lparr>added := AList.update name col (added (h ! p))\<rparr>]"

subsection \<open>Binning with \<^verbatim>\<open>pd.cut\<close>\<close>

text \<open>
  \<^verbatim>\<open>np.linspace(start, stop, n + 1)\<close>: \<^term>\<open>n\<close> equal steps, the last point set to
  \<^term>\<open>stop\<close> itself.
\<close>

definition linspace :: "real \<Rightarrow> real \<Rightarrow> nat \<Rightarrow> real list" where
  "linspace start stop n =
    map (\<lambda>i. start + real i * ((stop - start) / real n)) [0..<n] @ [stop]"

text \<open>
  The edges \<^verbatim>\<open>pd.cut\<close> makes for a number of bins. It raises \<^verbatim>\<open>ValueError\<close> for a column
  without rows (``Cannot cut empty array'') and for one with only NaN (its edges are
  all NaN: ``Bin edges must be unique''). Otherwise the range of the values is cut in
  equal parts and the first edge is moved down by a thousandth of the range, so that
  the smallest value lies in the first bin; a single value gets a range around it.
\<close>

definition nbins_to_bins :: "column \<Rightarrow> nat \<Rightarrow> py_error + real list" where
  "nbins_to_bins x nbins =
    (if nbins < 1 then Inl ValueError
     else if x = [] then Inl ValueError
     else
      (case series_min x of
         None \<Rightarrow> Inl ValueError
       | Some mn \<Rightarrow>
          (case series_max x of
             None \<Rightarrow> Inl ValueError
           | Some mx \<Rightarrow>
              if mn = mx then
                Inr (linspace (mn - (if mn \<noteq> 0 then 0.001 * \<bar>mn\<bar> else 0.001))
                       (mx + (if mx \<noteq> 0 then 0.001 * \<bar>mx\<bar> else 0.001)) nbins)
              else
                (let bins = linspace mn mx nbins; adj = (mx - mn) * 0.001
                 in Inr (bins[0 := bins ! 0 - adj])))))"

text \<open>
  The bin of a value: \<^verbatim>\<open>searchsorted\<close> from the left counts the edges below the value;
  a count of zero or of all edges is outside every bin, which is NaN.
\<close>

definition bin_of :: "real list \<Rightarrow> real \<Rightarrow> nat option" where
  "bin_of bins v =
    (let ids = length (filter (\<lambda>b. b < v) bins)
     in if ids = 0 \<or> ids = length bins then None else Some (ids - 1))"

text \<open>\<^verbatim>\<open>pd.cut(x, bins=n, labels=False)\<close>: the number of the bin of each row.\<close>

definition cut_codes :: "column \<Rightarrow> nat \<Rightarrow> py_error + column" where
  "cut_codes x nbins =
    (case nbins_to_bins x nbins of
       Inl e \<Rightarrow> Inl e
     | Inr bins \<Rightarrow>
        Inr (map (\<lambda>c. case c of None \<Rightarrow> None
                       | Some v \<Rightarrow> map_option real (bin_of bins v)) x))"

text \<open>
  \<^verbatim>\<open>pd.cut(x, bins=n).apply(lambda x: x.mid)\<close>: the middle of the interval of each row.
  pandas labels an interval with its edges rounded to the digits it needs to tell the
  edges apart, at least three; the rounding of an edge, given all edges, is the
  parameter \<^term>\<open>rnd\<close>.
\<close>

type_synonym rounding = "real list \<Rightarrow> real \<Rightarrow> real"

definition cut_mid :: "rounding \<Rightarrow> column \<Rightarrow> nat \<Rightarrow> py_error + column" where
  "cut_mid rnd x nbins =
    (case nbins_to_bins x nbins of
       Inl e \<Rightarrow> Inl e
     | Inr bins \<Rightarrow>
        (let breaks = map (rnd bins) bins in
         Inr (map (\<lambda>c. case c of None \<Rightarrow> None
                        | Some v \<Rightarrow>
                           map_option (\<lambda>i. (breaks ! i + breaks ! Suc i) / 2) (bin_of bins v))
                x)))"

text \<open>
  Lines 128 to 135, and again lines 192 to 198: four calls of \<^verbatim>\<open>pd.cut\<close> and four
  columns assigned to the frame at \<^term>\<open>p\<close>. The store is returned as it is when a call
  raises.
\<close>

definition add_bins ::
  "rounding \<Rightarrow> nat \<Rightarrow> heap \<Rightarrow> nat \<Rightarrow> heap \<times> (py_error + column \<times> column \<times> column \<times> column)"
  where
  "add_bins rnd n h p =
    (case cut_codes (map LATITUDE (fires (h ! p))) n of
       Inl e \<Rightarrow> (h, Inl e)
     | Inr lat_bin \<Rightarrow>
        (let h1 = df_setitem h p ''lat_bin'' lat_bin in
         case cut_codes (map LONGITUDE (fires (h1 ! p))) n of
           Inl e \<Rightarrow> (h1, Inl e)
         | Inr lon_bin \<Rightarrow>
            (let h2 = df_setitem h1 p ''lon_bin'' lon_bin in
             case cut_mid rnd (map LATITUDE (fires (h2 ! p))) n of
               Inl e \<Rightarrow> (h2, Inl e)
             | Inr lat_centers \<Rightarrow>
                (case cut_mid rnd (map LONGITUDE (fires (h2 ! p))) n of
                   Inl e \<Rightarrow> (h2, Inl e)
                 | Inr lon_centers \<Rightarrow>
                    (let h3 = df_setitem h2 p ''lat_center'' lat_centers;
                         h4 = df_setitem h3 p ''lon_center'' lon_centers
                     in (h4, Inr (lat_bin, lon_bin, lat_centers, lon_centers)))))))"

subsection \<open>Grouping\<close>

text \<open>
  \<^verbatim>\<open>groupby\<close> on several columns: the key of a row is the tuple of its cells, and a row
  with NaN in a key column is in no group. The groups are those that have a row, in the
  order of their keys. (The centers are categorical columns, and a pandas in which
  \<^verbatim>\<open>observed\<close> is false unless asked for lists the other combinations of keys as
  well, with the size 0.)
\<close>

definition group_keys :: "('k::linorder) option list \<Rightarrow> 'k list" where
  "group_keys ks = sort (remdups (dropna ks))"

definition group_of :: "'k option list \<Rightarrow> 'a list \<Rightarrow> 'k \<Rightarrow> 'a list" where
  "group_of ks xs k = map snd (filter (\<lambda>(k', x). k' = Some k) (zip ks xs))"

definition keys4 ::
  "column \<Rightarrow> column \<Rightarrow> column \<Rightarrow> column \<Rightarrow> (real \<times> real \<times> real \<times> real) option list" where
  "keys4 c1 c2 c3 c4 =
    map (\<lambda>(a, b, c, d).
          Option.bind a (\<lambda>a'. Option.bind b (\<lambda>b'. Option.bind c (\<lambda>c'.
            Option.bind d (\<lambda>d'. Some (a', b', c', d'))))))
      (zip c1 (zip c2 (zip c3 c4)))"

definition keys5 ::
  "int option list \<Rightarrow> column \<Rightarrow> column \<Rightarrow> column \<Rightarrow> column
    \<Rightarrow> (int \<times> real \<times> real \<times> real \<times> real) option list" where
  "keys5 c0 c1 c2 c3 c4 =
    map (\<lambda>(y, k). Option.bind y (\<lambda>y'. map_option (Pair y') k)) (zip c0 (keys4 c1 c2 c3 c4))"

subsection \<open>The map builders\<close>

function str_nat :: "nat \<Rightarrow> string" where
  "str_nat n =
    (if n < 10 then [char_of (48 + n)] else str_nat (n div 10) @ [char_of (48 + n mod 10)])"
  by pat_completeness auto
termination
  by (relation "measure id") auto

definition str_int :: "int \<Rightarrow> string" where
  "str_int i = (if i < 0 then ''-'' @ str_nat (nat (- i)) else str_nat (nat i))"

record agg_row =
  lat_bin :: real
  lon_bin :: real
  lat_center :: real
  lon_center :: real
  agg_value :: "real option"

text \<open>
  What \<^verbatim>\<open>px.scatter_mapbox\<close> is given to draw. What plotly does with it is not part of
  the model.
\<close>

record figure =
  data :: "agg_row list"
  title :: string
  colorbar_title :: string

definition aggregate ::
  "(real \<times> real \<times> real \<times> real) option list \<Rightarrow> real option list
    \<Rightarrow> (real option list \<Rightarrow> real option) \<Rightarrow> agg_row list" where
  "aggregate ks xs f =
    map (\<lambda>(a, b, c, d).
          \<lparr>lat_bin = a, lon_bin = b, lat_center = c, lon_center = d,
           agg_value = f (group_of ks xs (a, b, c, d))\<rparr>)
      (group_keys ks)"

definition invalid_metric :: string where
  "invalid_metric =
    ''Invalid metric. Use 'fire_count', 'total_acres', or 'avg_fire_size'' @ [CHR 0x27]"

text \<open>
  Lines 115 to 120. \<^verbatim>\<open>if year:\<close> is false for \<^verbatim>\<open>None\<close> and for \<^verbatim>\<open>0\<close>.
\<close>

definition select_year :: "heap \<Rightarrow> nat \<Rightarrow> int option \<Rightarrow> nat \<times> heap \<times> string" where
  "select_year h a yr =
    (case df_copy h a of (p0, h0) \<Rightarrow>
      (case yr of
         None \<Rightarrow> (p0, h0, '' (2000-2015)'')
       | Some y \<Rightarrow>
          if y = 0 then (p0, h0, '' (2000-2015)'')
          else (case df_year_eq h0 p0 y of (p1, h1) \<Rightarrow> (p1, h1, '' ('' @ str_int y @ '')''))))"

text \<open>
  Lines 101 to 177. The result: the store afterwards, what was printed, and the figure,
  \<^verbatim>\<open>None\<close> or the exception. The metric is looked at after the binning.
\<close>

definition create_fire_choropleth ::
  "rounding \<Rightarrow> heap \<Rightarrow> nat option \<Rightarrow> string \<Rightarrow> int option
    \<Rightarrow> heap \<times> string list \<times> (py_error + figure option)" where
  "create_fire_choropleth rnd h df metric yr =
    (case df of
       None \<Rightarrow> (h, [''No data available for visualization''], Inr None)
     | Some a \<Rightarrow>
        (case select_year h a yr of (plot_df, h1, title_year) \<Rightarrow>
          (case add_bins rnd 20 h1 plot_df of
             (h2, Inl e) \<Rightarrow> (h2, [], Inl e)
           | (h2, Inr (lat_bins, lon_bins, lat_centers, lon_centers)) \<Rightarrow>
              (let ks = keys4 lat_bins lon_bins lat_centers lon_centers;
                   sizes = map FIRE_SIZE (fires (h2 ! plot_df))
               in if metric = ''fire_count'' then
                    (h2, [],
                     Inr (Some \<lparr>data = aggregate ks sizes (\<lambda>g. Some (real (length g))),
                                title = ''California Wildfire Count by Region'' @ title_year,
                                colorbar_title = ''Number of Fires''\<rparr>))
                  else if metric = ''total_acres'' then
                    (h2, [],
                     Inr (Some \<lparr>data = aggregate ks sizes (\<lambda>g. Some (series_sum g)),
                                title = ''California Total Acres Burned by Region''
                                  @ title_year,
                                colorbar_title = ''Total Acres Burned''\<rparr>))
                  else if metric = ''avg_fire_size'' then
                    (h2, [],
                     Inr (Some \<lparr>data = aggregate ks sizes series_mean,
                                title = ''California Average Fire Size by Region''
                                  @ title_year,
                                colorbar_title = ''Average Fire Size (Acres)''\<rparr>))
                  else (h2, [invalid_metric], Inr None)))))"

record yearly_row =
  frame_year :: int
  cell_lat_bin :: real
  cell_lon_bin :: real
  cell_lat_center :: real
  cell_lon_center :: real
  fire_count :: nat
  total_acres :: real

text \<open>
  Lines 179 to 230. \<^verbatim>\<open>count\<close> counts the sizes that are numbers, \<^verbatim>\<open>sum\<close> adds them.
  The figure is the table it animates.
\<close>

definition create_time_series_map ::
  "rounding \<Rightarrow> heap \<Rightarrow> nat option \<Rightarrow> heap \<times> string list \<times> (py_error + yearly_row list option)"
  where
  "create_time_series_map rnd h df =
    (case df of
       None \<Rightarrow> (h, [''No data available for visualization''], Inr None)
     | Some a \<Rightarrow>
        (case df_copy h a of (df_viz, h1) \<Rightarrow>
          (case add_bins rnd 15 h1 df_viz of
             (h2, Inl e) \<Rightarrow> (h2, [], Inl e)
           | (h2, Inr (lat_bins, lon_bins, lat_centers, lon_centers)) \<Rightarrow>
              (let ks = keys5 (map FIRE_YEAR (fires (h2 ! df_viz)))
                          lat_bins lon_bins lat_centers lon_centers;
                   sizes = map FIRE_SIZE (fires (h2 ! df_viz))
               in (h2, [],
                   Inr (Some (map (\<lambda>(y, a, b, c, d).
                                \<lparr>frame_year = y, cell_lat_bin = a, cell_lon_bin = b,
                                 cell_lat_center = c, cell_lon_center = d,
                                 fire_count = length (dropna (group_of ks sizes (y, a, b, c, d))),
                                 total_acres = series_sum (group_of ks sizes (y, a, b, c, d))\<rparr>)
                              (group_keys ks))))))))"

subsection \<open>What the statements below speak of\<close>


definition well_formed :: "dataframe \<Rightarrow> bool" where
  "well_formed df \<longleftrightarrow> (\<forall>col \<in> snd ` set (added df). length col = length (fires df))"

text \<open>Rows, a database and a rounding to run the model on.\<close>

definition example_fire :: "string \<Rightarrow> int \<Rightarrow> real option \<Rightarrow> real option \<Rightarrow> fire" where
  "example_fire st y lat sz =
    \<lparr>FIRE_NAME = None, STATE = Some st, FIRE_YEAR = Some y, LATITUDE = lat,
     LONGITUDE = Some (- 120), FIRE_SIZE = sz, FIRE_SIZE_CLASS = Some ''B'',
     STAT_CAUSE_CODE = Some 1, STAT_CAUSE_DESCR = Some ''Lightning''\<rparr>"

definition example_db :: "fire sqlite" where
  "example_db path =
    (if path = ''fires.sqlite'' then
       Inr (Fires [example_fire ''CA'' 2006 (Some 34) (Some 10),
                   example_fire ''OR'' 2005 (Some 44) (Some 500),
                   example_fire ''CA'' 2005 (Some 40) (Some 20),
                   example_fire ''CA'' 1999 (Some 36) (Some 7),
                   example_fire ''CA'' 2005 (Some 38) (Some 300)])
     else if path = ''empty.sqlite'' then Inr (Fires [])
     else if path = ''new.sqlite'' then Inr (Query_fails ''no such table: Fires'')
     else Inl ''unable to open database file'')"

definition exact :: rounding where
  "exact bins b = b"

definition example_frame :: dataframe where
  "example_frame =
    \<lparr>fires = [example_fire ''CA'' 2005 (Some 38) (Some 300),
              example_fire ''CA'' 2005 None (Some 20),
              example_fire ''CA'' 2006 (Some 34) (Some 10)],
     added = [], size_dtype = Float64\<rparr>"


section \<open>Properties of the synthetic data\<close>

subsection \<open>The generator never raises and fills one row per year and state\<close>

lemma base_loop_dom:
  "base_loop R sts bp bw g = (bp', bw', g') \<Longrightarrow>
     dom bp' = dom bp \<union> set sts \<and> dom bw' = dom bw \<union> set sts"
proof (induction sts arbitrary: bp bw g)
  case Nil
  then show ?case by simp
next
  case (Cons st sts)
  obtain p w g1 where d: "draw_base R st g = ((p, w), g1)"
    by (metis prod.exhaust)
  from Cons.prems d
  have "base_loop R sts (bp(st \<mapsto> p)) (bw(st \<mapsto> w)) g1 = (bp', bw', g')"
    by simp
  from Cons.IH [OF this] show ?case by auto
qed

lemma make_row_returns:
  assumes "st \<in> dom bp" and "st \<in> dom bw"
  shows "\<exists>r g'. make_row R bp bw yr st g = Inr (r, g') \<and> state r = st \<and> year r = yr"
proof -
  from assms obtain b w where "bp st = Some b" and "bw st = Some w"
    by auto
  then show ?thesis
    by (simp add: make_row_def Let_def split: prod.splits)
qed

lemma make_row_nonneg:
  "make_row R bp bw yr st g = Inr (r, g') \<Longrightarrow> 0 \<le> precip_mm r \<and> 0 \<le> wildfire_index r"
  by (auto simp: make_row_def Let_def split: option.splits prod.splits)

lemma state_loop_returns:
  assumes "set sts \<subseteq> dom bp" and "set sts \<subseteq> dom bw"
  shows "\<exists>ext g'. state_loop R bp bw yr sts acc g = Inr (acc @ ext, g') \<and>
           map (\<lambda>r. (year r, state r)) ext = map (Pair yr) sts"
  using assms
proof (induction sts arbitrary: acc g)
  case Nil
  then show ?case by simp
next
  case (Cons st sts)
  from Cons.prems obtain r g1
    where r: "make_row R bp bw yr st g = Inr (r, g1)" "state r = st" "year r = yr"
    using make_row_returns [of st bp bw R yr g] by auto
  from Cons.prems have "set sts \<subseteq> dom bp" "set sts \<subseteq> dom bw"
    by auto
  from Cons.IH [OF this, of "acc @ [r]" g1] obtain ext g'
    where e: "state_loop R bp bw yr sts (acc @ [r]) g1 = Inr ((acc @ [r]) @ ext, g')"
      "map (\<lambda>r. (year r, state r)) ext = map (Pair yr) sts"
    by blast
  have "state_loop R bp bw yr (st # sts) acc g = Inr (acc @ (r # ext), g')"
    using r e by simp
  moreover have "map (\<lambda>r. (year r, state r)) (r # ext) = map (Pair yr) (st # sts)"
    using r e by simp
  ultimately show ?case by blast
qed

lemma year_loop_returns:
  assumes "set states \<subseteq> dom bp" and "set states \<subseteq> dom bw"
  shows "\<exists>ext g'. year_loop R bp bw yrs acc g = Inr (acc @ ext, g') \<and>
           map (\<lambda>r. (year r, state r)) ext = concat (map (\<lambda>yr. map (Pair yr) states) yrs)"
proof (induction yrs arbitrary: acc g)
  case Nil
  then show ?case by simp
next
  case (Cons yr yrs)
  from state_loop_returns [OF assms, of R yr acc g] obtain e1 g1
    where s: "state_loop R bp bw yr states acc g = Inr (acc @ e1, g1)"
      "map (\<lambda>r. (year r, state r)) e1 = map (Pair yr) states"
    by blast
  from Cons.IH [of "acc @ e1" g1] obtain e2 g2
    where y: "year_loop R bp bw yrs (acc @ e1) g1 = Inr ((acc @ e1) @ e2, g2)"
      "map (\<lambda>r. (year r, state r)) e2 = concat (map (\<lambda>yr. map (Pair yr) states) yrs)"
    by blast
  have "year_loop R bp bw (yr # yrs) acc g = Inr (acc @ (e1 @ e2), g2)"
    using s y by simp
  moreover have "map (\<lambda>r. (year r, state r)) (e1 @ e2) =
      concat (map (\<lambda>yr. map (Pair yr) states) (yr # yrs))"
    using s y by simp
  ultimately show ?case by blast
qed

lemma generate_returns:
  "\<exists>tbl. generate R g0 = Inr tbl \<and>
     map (\<lambda>r. (year r, state r)) tbl = concat (map (\<lambda>yr. map (Pair yr) states) years)"
proof -
  obtain bp bw g1
    where b: "base_loop R states Map.empty Map.empty (random_seed R 42 g0) = (bp, bw, g1)"
    by (metis prod.exhaust)
  from base_loop_dom [OF b] have d: "set states \<subseteq> dom bp" "set states \<subseteq> dom bw"
    by auto
  from year_loop_returns [OF d, of R years "[]" g1] obtain ext g2
    where "year_loop R bp bw years [] g1 = Inr (ext, g2)"
      "map (\<lambda>r. (year r, state r)) ext = concat (map (\<lambda>yr. map (Pair yr) states) years)"
    by auto
  with b show ?thesis by (simp add: generate_def)
qed

lemma length_states: "length states = 51"
  by (simp add: states_def)

lemma length_years: "length years = 26"
  by (simp add: years_def)

lemma length_concat_const:
  "length (concat (map (\<lambda>y. map (f y) xs) ys)) = length ys * length xs"
  by (induction ys) simp_all

lemma generate_length: "generate R g0 = Inr tbl \<Longrightarrow> length tbl = 1326"
proof -
  assume g: "generate R g0 = Inr tbl"
  with generate_returns [of R g0]
  have "map (\<lambda>r. (year r, state r)) tbl = concat (map (\<lambda>yr. map (Pair yr) states) years)"
    by auto
  then have "length tbl = length (concat (map (\<lambda>yr. map (Pair yr) states) years))"
    by (metis length_map)
  then show ?thesis
    by (simp add: length_concat_const length_states length_years)
qed

subsection \<open>A property of every new row holds of the whole table\<close>

lemma state_loop_all:
  assumes "\<And>st g r g'. make_row R bp bw yr st g = Inr (r, g') \<Longrightarrow> P r"
    and "state_loop R bp bw yr sts acc g = Inr (acc', g')"
    and "\<forall>r\<in>set acc. P r"
  shows "\<forall>r\<in>set acc'. P r"
  using assms(2,3)
proof (induction sts arbitrary: acc g)
  case Nil
  then show ?case by simp
next
  case (Cons st sts)
  from Cons.prems(1) obtain r g1
    where r: "make_row R bp bw yr st g = Inr (r, g1)"
      and rest: "state_loop R bp bw yr sts (acc @ [r]) g1 = Inr (acc', g')"
    by (auto split: sum.splits)
  from assms(1) [OF r] Cons.prems(2) have "\<forall>x\<in>set (acc @ [r]). P x"
    by simp
  from Cons.IH [OF rest this] show ?case .
qed

lemma year_loop_all:
  assumes "\<And>yr st g r g'. make_row R bp bw yr st g = Inr (r, g') \<Longrightarrow> P r"
    and "year_loop R bp bw yrs acc g = Inr (acc', g')"
    and "\<forall>r\<in>set acc. P r"
  shows "\<forall>r\<in>set acc'. P r"
  using assms(2,3)
proof (induction yrs arbitrary: acc g)
  case Nil
  then show ?case by simp
next
  case (Cons yr yrs)
  from Cons.prems(1) obtain mid g1
    where s: "state_loop R bp bw yr states acc g = Inr (mid, g1)"
      and rest: "year_loop R bp bw yrs mid g1 = Inr (acc', g')"
    by (auto split: sum.splits)
  have "\<forall>r\<in>set mid. P r"
    using state_loop_all [where P = P, OF assms(1) s Cons.prems(2)] .
  from Cons.IH [OF rest this] show ?case .
qed

lemma generate_all:
  assumes "\<And>bp bw g1 yr st g r g'.
      base_loop R states Map.empty Map.empty (random_seed R 42 g0) = (bp, bw, g1) \<Longrightarrow>
      make_row R bp bw yr st g = Inr (r, g') \<Longrightarrow> P r"
    and "generate R g0 = Inr tbl"
  shows "\<forall>r\<in>set tbl. P r"
proof -
  obtain bp bw g1
    where b: "base_loop R states Map.empty Map.empty (random_seed R 42 g0) = (bp, bw, g1)"
    by (metis prod.exhaust)
  with assms(2) obtain g2 where y: "year_loop R bp bw years [] g1 = Inr (tbl, g2)"
    by (auto simp: generate_def split: sum.splits)
  show ?thesis
    using year_loop_all [where P = P, OF assms(1) [OF b] y] by simp
qed

subsection \<open>Determinism\<close>

text \<open>
  C1. The table does not depend on the state the generator had before line 13: two
  runs, whatever they start from, give the same table, row for row. What is used of
  NumPy is that seeding sets the state from the seed alone.
\<close>

theorem generate_deterministic:
  assumes "\<forall>n g g'. random_seed R n g = random_seed R n g'"
  shows "generate R g0 = generate R g0'"
proof -
  from assms have "random_seed R 42 g0 = random_seed R 42 g0'"
    by blast
  then show ?thesis
    by (simp add: generate_def)
qed

theorem generate_deterministic_witness:
  "(\<forall>n g g'. random_seed step_rng n g = random_seed step_rng n g') \<and>
   generate step_rng 0 = generate step_rng 7"
proof -
  have s: "\<forall>n g g'. random_seed step_rng n g = random_seed step_rng n g'"
    by (simp add: step_rng_def)
  from generate_deterministic [OF s, of 0 7] s show ?thesis
    by blast
qed

subsection \<open>Clamping\<close>

text \<open>
  C10. The script runs through (no lookup fails), the table has its 1326 rows, and in
  every row both metrics are at least zero.
\<close>

theorem generated_rows_nonnegative:
  "\<exists>tbl. generate R g0 = Inr tbl \<and> length tbl = 1326 \<and>
     (\<forall>r\<in>set tbl. 0 \<le> precip_mm r \<and> 0 \<le> wildfire_index r)"
proof -
  from generate_returns [of R g0] obtain tbl where t: "generate R g0 = Inr tbl"
    by blast
  have "\<forall>r\<in>set tbl. 0 \<le> precip_mm r \<and> 0 \<le> wildfire_index r"
  proof (rule generate_all [OF _ t])
    fix bp bw yr st g r g'
    assume "make_row R bp bw yr st g = Inr (r, g')"
    then show "0 \<le> precip_mm r \<and> 0 \<le> wildfire_index r"
      by (rule make_row_nonneg)
  qed
  with t generate_length [OF t] show ?thesis
    by blast
qed

theorem generated_rows_nonnegative_witness:
  "\<exists>tbl. generate step_rng 0 = Inr tbl \<and> length tbl = 1326 \<and>
     0 \<le> precip_mm (tbl ! 0) \<and> 0 \<le> wildfire_index (tbl ! 0) \<and>
     0 \<le> precip_mm (tbl ! 1325) \<and> 0 \<le> wildfire_index (tbl ! 1325)"
proof -
  from generated_rows_nonnegative [of step_rng 0] obtain tbl
    where t: "generate step_rng 0 = Inr tbl" "length tbl = 1326"
      and n: "\<forall>r\<in>set tbl. 0 \<le> precip_mm r \<and> 0 \<le> wildfire_index r"
    by blast
  from t(2) have "tbl ! 0 \<in> set tbl" "tbl ! 1325 \<in> set tbl"
    by simp_all
  with n t show ?thesis
    by blast
qed

subsection \<open>Normalized intensities\<close>













section \<open>Properties of the wildfire script\<close>

subsection \<open>Ordering a table\<close>

lemma mset_insert_by: "mset (insert_by le x xs) = add_mset x (mset xs)"
  by (induction xs) simp_all

lemma mset_order_by: "mset (order_by le xs) = mset xs"
  by (induction xs) (simp_all add: mset_insert_by)

lemma set_insert_by: "set (insert_by le x xs) = insert x (set xs)"
  by (induction xs) auto

lemma sorted_wrt_insert_by:
  assumes total: "\<And>a b. le a b \<or> le b a"
    and trans: "\<And>a b c. le a b \<Longrightarrow> le b c \<Longrightarrow> le a c"
    and "sorted_wrt le xs"
  shows "sorted_wrt le (insert_by le x xs)"
  using assms(3)
proof (induction xs)
  case Nil
  then show ?case by simp
next
  case (Cons y ys)
  show ?case
  proof (cases "le x y")
    case True
    with Cons.prems trans have "\<forall>z\<in>set ys. le x z"
      by auto
    with True Cons.prems show ?thesis
      by simp
  next
    case False
    with total have "le y x"
      by blast
    with False Cons show ?thesis
      by (auto simp: set_insert_by)
  qed
qed

lemma sorted_wrt_order_by:
  assumes "\<And>a b. le a b \<or> le b a"
    and "\<And>a b c. le a b \<Longrightarrow> le b c \<Longrightarrow> le a c"
  shows "sorted_wrt le (order_by le xs)"
proof (induction xs)
  case Nil
  then show ?case by simp
next
  case (Cons x xs)
  from sorted_wrt_insert_by [of le, OF assms Cons.IH] show ?case
    by simp
qed

lemma year_size_order_total: "year_size_order a b \<or> year_size_order b a"
  unfolding year_size_order_def by auto

lemma year_size_order_trans:
  "year_size_order a b \<Longrightarrow> year_size_order b c \<Longrightarrow> year_size_order a c"
  unfolding year_size_order_def by auto

lemma sorted_query: "sorted_wrt year_size_order (query tbl)"
  unfolding query_def
  by (rule sorted_wrt_order_by [OF year_size_order_total year_size_order_trans])

lemma mset_query: "mset (query tbl) = mset (map fire.truncate (filter selected tbl))"
  by (simp add: query_def mset_order_by)

lemma selected_iff:
  "selected r \<longleftrightarrow>
     STATE r = Some ''CA'' \<and> (\<exists>y. FIRE_YEAR r = Some y \<and> 2000 \<le> y \<and> y \<le> 2015)"
  by (auto simp: selected_def split: option.splits)

subsection \<open>The loader\<close>

text \<open>
  C7. When the connection opens and the query runs, the loader returns a frame with
  just the nine columns, whose rows are exactly (each as often as in the table) those
  rows of \<^verbatim>\<open>Fires\<close> that have the state CA and a year from 2000 to 2015, cut down to
  the nine columns; of any two rows of the frame the earlier has the smaller year, or
  the same year and a size that is not smaller.
\<close>

theorem load_returns_selected_rows_in_order:
  assumes "sqlite3 db_path = Inr (Fires tbl)"
  shows "\<exists>df. snd (load_california_wildfires sqlite3 db_path) = Some df \<and> added df = [] \<and>
    mset (fires df) =
      mset (map fire.truncate
        (filter (\<lambda>r. STATE r = Some ''CA'' \<and>
                      (\<exists>y. FIRE_YEAR r = Some y \<and> 2000 \<le> y \<and> y \<le> 2015)) tbl)) \<and>
    sorted_wrt (\<lambda>a b. FIRE_YEAR a < FIRE_YEAR b \<or>
                       (FIRE_YEAR a = FIRE_YEAR b \<and> FIRE_SIZE b \<le> FIRE_SIZE a)) (fires df)"
proof -
  have sel: "selected = (\<lambda>r::'a fire_scheme. STATE r = Some ''CA'' \<and>
      (\<exists>y. FIRE_YEAR r = Some y \<and> 2000 \<le> y \<and> y \<le> 2015))"
    by (rule ext) (rule selected_iff)
  have ord: "year_size_order = (\<lambda>a b. FIRE_YEAR a < FIRE_YEAR b \<or>
      (FIRE_YEAR a = FIRE_YEAR b \<and> FIRE_SIZE b \<le> FIRE_SIZE a))"
    by (intro ext) (simp add: year_size_order_def)
  have "snd (load_california_wildfires sqlite3 db_path) = Some (sql_frame (query tbl))"
    using assms by (simp add: load_california_wildfires_def Let_def)
  moreover have "added (sql_frame (query tbl)) = []"
    and "fires (sql_frame (query tbl)) = query tbl"
    by (simp_all add: sql_frame_def)
  ultimately show ?thesis
    using mset_query [of tbl] sorted_query [of tbl] unfolding sel ord by simp
qed

theorem load_returns_selected_rows_in_order_witness:
  "example_db ''fires.sqlite'' =
     Inr (Fires [example_fire ''CA'' 2006 (Some 34) (Some 10),
                 example_fire ''OR'' 2005 (Some 44) (Some 500),
                 example_fire ''CA'' 2005 (Some 40) (Some 20),
                 example_fire ''CA'' 1999 (Some 36) (Some 7),
                 example_fire ''CA'' 2005 (Some 38) (Some 300)]) \<and>
   map_option fires (snd (load_california_wildfires example_db ''fires.sqlite'')) =
     Some [example_fire ''CA'' 2005 (Some 38) (Some 300),
           example_fire ''CA'' 2005 (Some 40) (Some 20),
           example_fire ''CA'' 2006 (Some 34) (Some 10)]"
  using load_returns_selected_rows_in_order [of example_db "''fires.sqlite''"
      "[example_fire ''CA'' 2006 (Some 34) (Some 10),
        example_fire ''OR'' 2005 (Some 44) (Some 500),
        example_fire ''CA'' 2005 (Some 40) (Some 20),
        example_fire ''CA'' 1999 (Some 36) (Some 7),
        example_fire ''CA'' 2005 (Some 38) (Some 300)]"]
  by (simp add: example_db_def load_california_wildfires_def Let_def sql_frame_def query_def
      selected_def year_size_order_def example_fire_def fire.defs)

text \<open>
  C5. Whatever the path: if \<^verbatim>\<open>sqlite3.connect\<close> raises, or the query raises on the open
  connection, the loader returns \<^verbatim>\<open>None\<close> (it does not raise), its last print is the
  error line with the exception's message, and it has called \<^verbatim>\<open>connect\<close> once and the
  query at most once.
\<close>

theorem load_failure_returns_none:
  assumes "sqlite3 db_path = Inl e \<or> sqlite3 db_path = Inr (Query_fails e)"
  shows "snd (load_california_wildfires sqlite3 db_path) = None \<and>
    last (fst (load_california_wildfires sqlite3 db_path)) = Print_error e \<and>
    filter (\<lambda>ev. \<exists>p. ev = Call_connect p) (fst (load_california_wildfires sqlite3 db_path))
      = [Call_connect db_path] \<and>
    count_list (fst (load_california_wildfires sqlite3 db_path)) Call_read_sql_query \<le> 1"
  using assms by (auto simp: load_california_wildfires_def)

theorem load_failure_returns_none_witness:
  "(example_db ''/no/such/dir/fires.sqlite'' = Inl ''unable to open database file'' \<or>
    example_db ''/no/such/dir/fires.sqlite'' = Inr (Query_fails ''unable to open database file'')) \<and>
   load_california_wildfires example_db ''/no/such/dir/fires.sqlite'' =
     ([Print_loading, Call_connect ''/no/such/dir/fires.sqlite'',
       Print_error ''unable to open database file''], None) \<and>
   (example_db ''new.sqlite'' = Inl ''no such table: Fires'' \<or>
    example_db ''new.sqlite'' = Inr (Query_fails ''no such table: Fires'')) \<and>
   snd (load_california_wildfires example_db ''new.sqlite'') = None"
  using load_failure_returns_none [of example_db "''/no/such/dir/fires.sqlite''"
      "''unable to open database file''"]
    load_failure_returns_none [of example_db "''new.sqlite''" "''no such table: Fires''"]
  by (simp add: example_db_def load_california_wildfires_def)

text \<open>
  C4 does not hold of the code. On a path where SQLite opens a connection and the
  query then raises (a new or other database without a \<^verbatim>\<open>Fires\<close> table), the loader
  goes from the query to the \<^verbatim>\<open>except\<close> branch and returns: \<^verbatim>\<open>close\<close> is never called and
  one connection is left open. On success the connection is closed before the prints.
\<close>

theorem load_query_failure_leaves_connection_open:
  "load_california_wildfires example_db ''new.sqlite'' =
     ([Print_loading, Call_connect ''new.sqlite'', Call_read_sql_query,
       Print_error ''no such table: Fires''], None) \<and>
   Call_close \<notin> set (fst (load_california_wildfires example_db ''new.sqlite'')) \<and>
   open_connections example_db (fst (load_california_wildfires example_db ''new.sqlite'')) 0 = 1 \<and>
   open_connections example_db (fst (load_california_wildfires example_db ''fires.sqlite'')) 0 = 0"
  by (simp add: load_california_wildfires_def example_db_def Let_def)

lemma load_open_connections:
  "open_connections sqlite3 (fst (load_california_wildfires sqlite3 db_path)) 0 =
     (case sqlite3 db_path of Inr (Query_fails e) \<Rightarrow> 1 | _ \<Rightarrow> 0)"
  by (simp add: load_california_wildfires_def Let_def split: sum.splits database.splits)

subsection \<open>The summary of a table without rows\<close>

lemma value_counts_empty [simp]: "value_counts [] = []"
  by (simp add: value_counts_def)

lemma isnull_sum_empty:
  assumes "fires df = []" and "well_formed df"
  shows "filter (\<lambda>(col, missing_count). 0 < missing_count) (isnull_sum df) = []"
proof -
  from assms have "\<forall>col \<in> snd ` set (added df). col = []"
    by (simp add: well_formed_def)
  then have "\<forall>(name, col) \<in> set (added df). nulls col = 0"
    by (auto simp: nulls_def)
  then have "filter (\<lambda>(col, missing_count). 0 < missing_count)
      (map (\<lambda>(name, col). (name, nulls col)) (added df)) = []"
    by (auto simp: filter_empty_conv)
  with assms(1) show ?thesis
    by (simp add: isnull_sum_def nulls_def)
qed

text \<open>
  C8, as stated, fails. The frame the loader returns for a query without rows has no
  number in \<^verbatim>\<open>FIRE_SIZE\<close>, so the column has dtype \<^verbatim>\<open>object\<close>; the summary prints its
  first sections and the heading of the largest fires, and then \<^verbatim>\<open>nlargest\<close> raises
  \<^verbatim>\<open>TypeError\<close>.
\<close>

theorem explore_loaded_empty_table_counterexample:
  "snd (load_california_wildfires example_db ''empty.sqlite'') =
     Some \<lparr>fires = [], added = [], size_dtype = Object\<rparr> \<and>
   explore_ca_data (snd (load_california_wildfires example_db ''empty.sqlite'')) =
     ([Banner, Total_fires 0, Years_covered None None, Total_acres 0, Average_size None,
       Heading ''Fires by Year:'', Heading ''Fire Size Classes:'',
       Heading ''Top 10 Fire Causes:'', Heading ''Largest Fires (Top 5):''],
      Inl TypeError)"
  by (simp add: load_california_wildfires_def example_db_def Let_def sql_frame_def query_def
      explore_ca_data_def nlargest_def series_min_def series_max_def series_sum_def
      series_mean_def)

text \<open>
  C8, amended. For a table without rows whose \<^verbatim>\<open>FIRE_SIZE\<close> column is numeric (a table
  cut down from one with rows), the summary returns without raising. It prints the
  total 0, no year range (NaN to NaN), 0 acres, no average (NaN), the headings of the
  listings by year, by class, of the causes, of the largest fires and of the missing
  data with no line under any of them, and an empty preview.
\<close>

theorem explore_empty_numeric_table:
  assumes "fires df = []" and "well_formed df" and "size_dtype df = Float64"
  shows "explore_ca_data (Some df) =
     ([Banner, Total_fires 0, Years_covered None None, Total_acres 0, Average_size None,
       Heading ''Fires by Year:'', Heading ''Fire Size Classes:'',
       Heading ''Top 10 Fire Causes:'', Heading ''Largest Fires (Top 5):'',
       Heading ''Missing Data:'', Heading ''First 3 records:'',
       First_records [] (map (\<lambda>(name, col). (name, take 3 col)) (added df))],
      Inr ())"
  using assms isnull_sum_empty [OF assms(1,2)]
  by (simp add: explore_ca_data_def nlargest_def series_min_def series_max_def series_sum_def
      series_mean_def)

theorem explore_empty_numeric_table_witness:
  "fires \<lparr>fires = [], added = [], size_dtype = Float64\<rparr> = [] \<and>
   well_formed \<lparr>fires = [], added = [], size_dtype = Float64\<rparr> \<and>
   size_dtype \<lparr>fires = [], added = [], size_dtype = Float64\<rparr> = Float64 \<and>
   explore_ca_data (Some \<lparr>fires = [], added = [], size_dtype = Float64\<rparr>) =
     ([Banner, Total_fires 0, Years_covered None None, Total_acres 0, Average_size None,
       Heading ''Fires by Year:'', Heading ''Fire Size Classes:'',
       Heading ''Top 10 Fire Causes:'', Heading ''Largest Fires (Top 5):'',
       Heading ''Missing Data:'', Heading ''First 3 records:'', First_records [] []],
      Inr ())"
  using explore_empty_numeric_table [of "\<lparr>fires = [], added = [], size_dtype = Float64\<rparr>"]
  by (simp add: well_formed_def)

subsection \<open>The caller's frame\<close>

lemma take_df_setitem: "k \<le> p \<Longrightarrow> take k (df_setitem h p name col) = take k h"
  by (simp add: df_setitem_def)

lemma length_df_setitem [simp]: "length (df_setitem h p name col) = length h"
  by (simp add: df_setitem_def)

lemma add_bins_frame:
  assumes "k \<le> p"
  shows "take k (fst (add_bins rnd n h p)) = take k h"
  using assms
  by (simp add: add_bins_def Let_def take_df_setitem split: sum.splits)

lemma select_year_frame:
  assumes "select_year h a yr = (p, h1, ty)"
  shows "length h \<le> p \<and> take (length h) h1 = h"
  using assms
  by (auto simp: select_year_def df_copy_def df_year_eq_def Let_def
      split: option.splits if_splits)

text \<open>
  C9. Both map builders leave every frame that exists when they are called as it is,
  rows and columns, and so the caller's: whatever the metric and the year filter, and
  whether they return a figure, return \<^verbatim>\<open>None\<close> or raise.
\<close>

theorem builders_leave_input_unchanged:
  assumes "a < length h"
  shows "take (length h) (fst (create_fire_choropleth rnd h (Some a) metric yr)) = h \<and>
    fst (create_fire_choropleth rnd h (Some a) metric yr) ! a = h ! a \<and>
    take (length h) (fst (create_time_series_map rnd h (Some a))) = h \<and>
    fst (create_time_series_map rnd h (Some a)) ! a = h ! a"
proof -
  obtain p h1 ty where s: "select_year h a yr = (p, h1, ty)"
    by (metis prod.exhaust)
  from select_year_frame [OF s] have p: "length h \<le> p" and h1: "take (length h) h1 = h"
    by simp_all
  have "fst (create_fire_choropleth rnd h (Some a) metric yr) = fst (add_bins rnd 20 h1 p)"
    using s by (simp add: create_fire_choropleth_def Let_def split: prod.splits sum.splits)
  with add_bins_frame [OF p, of rnd 20 h1] h1
  have c: "take (length h) (fst (create_fire_choropleth rnd h (Some a) metric yr)) = h"
    by simp
  have "fst (create_time_series_map rnd h (Some a)) =
      fst (add_bins rnd 15 (h @ [h ! a]) (length h))"
    by (simp add: create_time_series_map_def df_copy_def Let_def split: prod.splits sum.splits)
  with add_bins_frame [of "length h" "length h" rnd 15 "h @ [h ! a]"]
  have t: "take (length h) (fst (create_time_series_map rnd h (Some a))) = h"
    by simp
  have "fst (create_fire_choropleth rnd h (Some a) metric yr) ! a =
      take (length h) (fst (create_fire_choropleth rnd h (Some a) metric yr)) ! a"
    using assms by simp
  moreover have "fst (create_time_series_map rnd h (Some a)) ! a =
      take (length h) (fst (create_time_series_map rnd h (Some a))) ! a"
    using assms by simp
  ultimately show ?thesis
    using c t by simp
qed

theorem builders_leave_input_unchanged_witness:
  "(0::nat) < length [example_frame] \<and>
   fst (create_fire_choropleth exact [example_frame] (Some 0) ''total_acres'' (Some 2005)) ! 0
     = example_frame \<and>
   fst (create_time_series_map exact [example_frame] (Some 0)) ! 0 = example_frame"
  using builders_leave_input_unchanged [of 0 "[example_frame]" exact "''total_acres''" "Some 2005"]
  by simp

subsection \<open>Binning\<close>











lemma cut_codes_raises: "dropna x = [] \<Longrightarrow> cut_codes x n = Inl ValueError"
  by (simp add: cut_codes_def nbins_to_bins_def series_min_def)



subsection \<open>Grouping\<close>






subsection \<open>The choropleth builder\<close>










end
